theory Spec2Isabelle
  imports Complex_Main
begin

section \<open>Text, tokens and the tables of the Python runtime\<close>

text \<open>
  A Python \<open>str\<close> is a sequence of Unicode code points; it is modelled as a list of
  natural numbers, one per code point (\<open>len\<close> is \<open>length\<close>, \<open>s.count(c)\<close> is
  \<open>count_list s c\<close>).  Python floats are modelled as real numbers: rounding, infinities
  and NaN are outside the model.
\<close>

type_synonym ustr = "nat list"

text \<open>\<open>tokenizer.Token\<close>: the field \<open>value\<close> is named \<open>token_value\<close> here.\<close>

record Token =
  token_value :: ustr
  original_value :: ustr
  is_emoji :: bool

text \<open>
  The character tables of the Python runtime that the code consults: the class \<open>\w\<close> of
  the \<open>re\<close> module (it decides \<open>\b\<close>), and the case properties read by
  \<open>str.isupper\<close>.  They are a parameter of the model.
\<close>

record unicode_db =
  word_class :: "nat \<Rightarrow> bool"
  upper_cp :: "nat \<Rightarrow> bool"
  lower_cp :: "nat \<Rightarrow> bool"
  title_cp :: "nat \<Rightarrow> bool"

datatype py_error = ValueError | ZeroDivisionError | IndexError

definition bind_err :: "py_error + 'a \<Rightarrow> ('a \<Rightarrow> py_error + 'b) \<Rightarrow> py_error + 'b" where
  "bind_err m f = (case m of Inl e \<Rightarrow> Inl e | Inr x \<Rightarrow> f x)"

text \<open>\<open>xs[i]\<close> for \<open>i \<ge> 0\<close>: out of range is an \<open>IndexError\<close>.\<close>

definition get :: "'a list \<Rightarrow> nat \<Rightarrow> py_error + 'a" where
  "get xs i = (if i < length xs then Inr (xs ! i) else Inl IndexError)"

section \<open>tokenizer.py\<close>

text \<open>
  The character classes of the pattern \<open>comprehensive\<close>, compiled with \<open>re.IGNORECASE\<close>.
  \<^item> \<open>[:;8=]\<close>, \<open>[\-\^]\<close>: no cased character.
  \<^item> \<open>[)D(PO3]\<close>: with the flag also \<open>d\<close>, \<open>p\<close>, \<open>o\<close>.
  \<^item> the six symbol ranges: no cased character.
  \<^item> \<open>[a-ya yo]\<close> (Cyrillic U+0430..U+044F and U+0451): with the flag also the capitals
    U+0410..U+042F and U+0401, and the letter forms U+1C80..U+1C86 that share a capital
    with one of them.
\<close>

definition eyes :: "nat \<Rightarrow> bool" where
  "eyes c = (c = 58 \<or> c = 59 \<or> c = 56 \<or> c = 61)"

definition nose :: "nat \<Rightarrow> bool" where
  "nose c = (c = 45 \<or> c = 94)"

definition mouth :: "nat \<Rightarrow> bool" where
  "mouth c = (c = 41 \<or> c = 68 \<or> c = 40 \<or> c = 80 \<or> c = 79 \<or> c = 51
              \<or> c = 100 \<or> c = 112 \<or> c = 111)"

definition symbol_ranges :: "nat \<Rightarrow> bool" where
  "symbol_ranges c =
     ((0x1F300 \<le> c \<and> c \<le> 0x1F5FF) \<or> (0x1F600 \<le> c \<and> c \<le> 0x1F64F)
      \<or> (0x1F680 \<le> c \<and> c \<le> 0x1F6FF) \<or> (0x1F1E0 \<le> c \<and> c \<le> 0x1F1FF)
      \<or> (0x2600 \<le> c \<and> c \<le> 0x26FF) \<or> (0x2700 \<le> c \<and> c \<le> 0x27BF))"

definition cyr_letter :: "nat \<Rightarrow> bool" where
  "cyr_letter c =
     ((0x430 \<le> c \<and> c \<le> 0x44F) \<or> c = 0x451 \<or> (0x410 \<le> c \<and> c \<le> 0x42F) \<or> c = 0x401
      \<or> (0x1C80 \<le> c \<and> c \<le> 0x1C86))"

definition trailing_punct :: "nat \<Rightarrow> bool" where
  "trailing_punct c = (c = 33 \<or> c = 63 \<or> c = 46 \<or> c = 44 \<or> c = 59)"

text \<open>
  \<open>\w\<close>: every letter of \<open>cyr_letter\<close> is alphabetic, hence a word character; for the
  other code points the table of the runtime decides.
\<close>

definition is_word :: "unicode_db \<Rightarrow> nat \<Rightarrow> bool" where
  "is_word U c = (cyr_letter c \<or> word_class U c)"

fun is_word_opt :: "unicode_db \<Rightarrow> nat option \<Rightarrow> bool" where
  "is_word_opt U None = False"
| "is_word_opt U (Some c) = is_word U c"

text \<open>\<open>\b\<close> between the character before the position (if any) and the one after it.\<close>

definition word_boundary :: "unicode_db \<Rightarrow> nat option \<Rightarrow> nat option \<Rightarrow> bool" where
  "word_boundary U before after = (is_word_opt U before \<noteq> is_word_opt U after)"

fun head_opt :: "'a list \<Rightarrow> 'a option" where
  "head_opt [] = None"
| "head_opt (x # xs) = Some x"

text \<open>
  Each alternative of the pattern, tried at the start of \<open>s\<close>; the result is the length of
  the match.

  First alternative, \<open>[:;8=][\-\^]?[)D(PO3]+\<close>: the optional nose is tried first, and
  dropped when no mouth follows it.
\<close>

definition match_emoticon :: "ustr \<Rightarrow> nat option" where
  "match_emoticon s =
     (case s of
        [] \<Rightarrow> None
      | c # cs \<Rightarrow>
          if \<not> eyes c then None
          else
            (let with_nose = (case cs of [] \<Rightarrow> 0
                               | n # ms \<Rightarrow> if nose n then length (takeWhile mouth ms) else 0);
                 without_nose = length (takeWhile mouth cs)
             in if 0 < with_nose then Some (2 + with_nose)
                else if 0 < without_nose then Some (1 + without_nose)
                else None))"

text \<open>Alternatives two to seven: one code point of a symbol range.\<close>

definition match_symbol :: "ustr \<Rightarrow> nat option" where
  "match_symbol s = (case s of [] \<Rightarrow> None | c # cs \<Rightarrow> if symbol_ranges c then Some 1 else None)"

text \<open>
  Last alternative, the group \<open>(\b[a-ya yo]+\b[!?.,;]*)\<close>.  The letters are matched
  greedily; the second \<open>\b\<close> can only hold after the whole run, since inside the run both
  neighbours are word characters, so a run followed by a word character does not match.
\<close>

definition match_word :: "unicode_db \<Rightarrow> nat option \<Rightarrow> ustr \<Rightarrow> nat option" where
  "match_word U prev s =
     (let letters = takeWhile cyr_letter s; rest = dropWhile cyr_letter s
      in if word_boundary U prev (head_opt s) \<and> letters \<noteq> []
            \<and> word_boundary U (Some (last letters)) (head_opt rest)
         then Some (length letters + length (takeWhile trailing_punct rest))
         else None)"

text \<open>The alternatives in the order of the pattern; the flag tells whether group 1 matched.\<close>

definition match_at :: "unicode_db \<Rightarrow> nat option \<Rightarrow> ustr \<Rightarrow> (nat \<times> bool) option" where
  "match_at U prev s =
     (case match_emoticon s of
        Some n \<Rightarrow> Some (n, False)
      | None \<Rightarrow>
          (case match_symbol s of
             Some n \<Rightarrow> Some (n, False)
           | None \<Rightarrow>
               (case match_word U prev s of
                  Some n \<Rightarrow> Some (n, True)
                | None \<Rightarrow> None)))"

text \<open>
  \<open>comprehensive.finditer(text)\<close>: the scan from left to right; \<open>prev\<close> is the character
  before the current position.  A match has at least one character, and the scan goes on
  behind it.
\<close>

function finditer :: "unicode_db \<Rightarrow> nat option \<Rightarrow> ustr \<Rightarrow> (ustr \<times> bool) list" where
  "finditer U prev [] = []"
| "finditer U prev (c # cs) =
     (case match_at U prev (c # cs) of
        None \<Rightarrow> finditer U (Some c) cs
      | Some (n, g) \<Rightarrow>
          (take n (c # cs), g)
            # finditer U (Some ((c # cs) ! (n - 1))) (drop (n - 1) cs))"
  by pat_completeness auto
termination
  by (relation "measure (\<lambda>(U, prev, s). length s)") auto

text \<open>\<open>str.lower\<close> on the characters a matched word can contain.\<close>

definition lower_cp_of :: "nat \<Rightarrow> nat" where
  "lower_cp_of c = (if 0x410 \<le> c \<and> c \<le> 0x42F then c + 32 else if c = 0x401 then 0x451 else c)"

definition lower :: "ustr \<Rightarrow> ustr" where
  "lower s = map lower_cp_of s"

text \<open>\<open>re.sub(r'[!?.,;]+$', '', token_value)\<close>: the trailing run of punctuation is removed.\<close>

definition strip_trailing_punct :: "ustr \<Rightarrow> ustr" where
  "strip_trailing_punct s = rev (dropWhile trailing_punct (rev s))"

text \<open>The body of the loop of \<open>tokenize_with_positions\<close> for one match.\<close>

definition tokens_of_match :: "ustr \<times> bool \<Rightarrow> Token list" where
  "tokens_of_match m =
     (if snd m then
        (let token_val = fst m; clean_word = strip_trailing_punct token_val
         in if clean_word \<noteq> []
            then [\<lparr>token_value = lower clean_word, original_value = token_val, is_emoji = False\<rparr>]
            else [])
      else
        (let emoji_value = fst m
         in if emoji_value \<noteq> []
            then [\<lparr>token_value = emoji_value, original_value = emoji_value, is_emoji = True\<rparr>]
            else []))"

definition tokenize_with_positions :: "unicode_db \<Rightarrow> ustr \<Rightarrow> Token list" where
  "tokenize_with_positions U text =
     filter (\<lambda>token. token_value token \<noteq> []) (concat (map tokens_of_match (finditer U None text)))"

section \<open>sentiment_analyzer.py\<close>

subsection \<open>Data and static tables\<close>

record SentimentResult =
  score :: real
  sentiment :: ustr
  word_count :: int

text \<open>The fields \<open>_lexicon\<close>, \<open>_booster_words\<close> and \<open>_negation_words\<close> of the analyzer.\<close>

record SentimentAnalyzer =
  lexicon :: "ustr \<rightharpoonup> real"
  booster_words :: "ustr \<rightharpoonup> real"
  negation_words :: "ustr set"

text \<open>
  Each Russian word of the tables is given by its code points, with a transliteration
  beside it.
\<close>

definition load_booster_words :: "ustr \<rightharpoonup> real" where
  "load_booster_words = map_of [
     ([1087, 1088, 1077, 1082, 1088, 1072, 1089, 1085, 1086], 4.0),  \<comment> \<open>prekrasno\<close>
     ([1080, 1076, 1077, 1072, 1083, 1100, 1085, 1086], 4.0),  \<comment> \<open>ideal'no\<close>
     ([1074, 1086, 1089, 1093, 1080, 1090, 1080, 1090, 1077, 1083, 1100, 1085, 1086], 4.0),  \<comment> \<open>voshititel'no\<close>
     ([1073, 1083, 1077, 1089, 1090, 1103, 1097, 1077], 4.0),  \<comment> \<open>blestyashche\<close>
     ([1074, 1077, 1083, 1080, 1082, 1086, 1083, 1077, 1087, 1085, 1086], 4.0),  \<comment> \<open>velikolepno\<close>
     ([1087, 1086, 1090, 1088, 1103, 1089, 1072, 1102, 1097, 1077], 3.0),  \<comment> \<open>potryasayushche\<close>
     ([1080, 1079, 1091, 1084, 1080, 1090, 1077, 1083, 1100, 1085, 1086], 3.0),  \<comment> \<open>izumitel'no\<close>
     ([1085, 1077, 1074, 1077, 1088, 1086, 1103, 1090, 1085, 1086], 3.0),  \<comment> \<open>neveroyatno\<close>
     ([1086, 1095, 1077, 1085, 1100], 2.0),  \<comment> \<open>ochen'\<close>
     ([1095, 1088, 1077, 1079, 1074, 1099, 1095, 1072, 1081, 1085, 1086], 2.0),  \<comment> \<open>chrezvychajno\<close>
     ([1080, 1089, 1082, 1083, 1102, 1095, 1080, 1090, 1077, 1083, 1100, 1085, 1086], 2.0),  \<comment> \<open>isklyuchitel'no\<close>
     ([1085, 1077, 1086, 1073, 1099, 1095, 1072, 1081, 1085, 1086], 2.0),  \<comment> \<open>neobychajno\<close>
     ([1076, 1086, 1074, 1086, 1083, 1100, 1085, 1086], 1.0),  \<comment> \<open>dovol'no\<close>
     ([1074, 1077, 1089, 1100, 1084, 1072], 1.0),  \<comment> \<open>ves'ma\<close>
     ([1076, 1086, 1089, 1090, 1072, 1090, 1086, 1095, 1085, 1086], 1.0),  \<comment> \<open>dostatochno\<close>
     ([1072, 1073, 1089, 1086, 1083, 1102, 1090, 1085, 1086], 0.0),  \<comment> \<open>absolyutno\<close>
     ([1089, 1086, 1074, 1077, 1088, 1096, 1077, 1085, 1085, 1086], 0.0),  \<comment> \<open>sovershenno\<close>
     ([1087, 1086, 1083, 1085, 1086, 1089, 1090, 1100, 1102], 0.0),  \<comment> \<open>polnost'yu\<close>
     ([1094, 1077, 1083, 1080, 1082, 1086, 1084], 0.0),  \<comment> \<open>celikom\<close>
     ([1087, 1088, 1103, 1084, 1086], 0.0),  \<comment> \<open>pryamo\<close>
     ([1087, 1088, 1086, 1089, 1090, 1086], 0.0),  \<comment> \<open>prosto\<close>
     ([1087, 1088, 1103, 1084, 1086, 45, 1090, 1072, 1082, 1080], 0.0),  \<comment> \<open>pryamo-taki\<close>
     ([1076, 1072, 1078, 1077], 0.0),  \<comment> \<open>dazhe\<close>
     ([1074, 1086, 1090], 0.0),  \<comment> \<open>vot\<close>
     ([1078, 1077], 0.0),  \<comment> \<open>zhe\<close>
     ([1089, 1083, 1080, 1096, 1082, 1086, 1084], - 1.0),  \<comment> \<open>slishkom\<close>
     ([1095, 1088, 1077, 1079, 1084, 1077, 1088, 1085, 1086], - 1.0),  \<comment> \<open>chrezmerno\<close>
     ([1082, 1072, 1090, 1072, 1089, 1090, 1088, 1086, 1092, 1080, 1095, 1077, 1089, 1082, 1080], - 2.0),  \<comment> \<open>katastroficheski\<close>
     ([1082, 1088, 1080, 1090, 1080, 1095, 1077, 1089, 1082, 1080], - 2.0),  \<comment> \<open>kriticheski\<close>
     ([1091, 1078, 1072, 1089, 1085, 1086], - 2.0),  \<comment> \<open>uzhasno\<close>
     ([1082, 1086, 1096, 1084, 1072, 1088, 1085, 1086], - 2.0),  \<comment> \<open>koshmarno\<close>
     ([1086, 1090, 1074, 1088, 1072, 1090, 1080, 1090, 1077, 1083, 1100, 1085, 1086], - 4.0),  \<comment> \<open>otvratitel'no\<close>
     ([1086, 1084, 1077, 1088, 1079, 1080, 1090, 1077, 1083, 1100, 1085, 1086], - 4.0),  \<comment> \<open>omerzitel'no\<close>
     ([1091, 1078, 1072, 1089, 1072, 1102, 1097, 1077], - 3.0),  \<comment> \<open>uzhasayushche\<close>
     ([1085, 1077, 1074, 1099, 1085, 1086, 1089, 1080, 1084, 1086], - 3.0),  \<comment> \<open>nevynosimo\<close>
     ([1085, 1077, 1089, 1090, 1077, 1088, 1087, 1080, 1084, 1086], - 3.0)  \<comment> \<open>nesterpimo\<close>]"

definition load_negation_words :: "ustr set" where
  "load_negation_words = set [
     [1085, 1077],  \<comment> \<open>ne\<close>
     [1085, 1077, 1090],  \<comment> \<open>net\<close>
     [1085, 1080],  \<comment> \<open>ni\<close>
     [1085, 1080, 1082, 1086, 1075, 1076, 1072],  \<comment> \<open>nikogda\<close>
     [1085, 1080, 1089, 1082, 1086, 1083, 1100, 1082, 1086],  \<comment> \<open>niskol'ko\<close>
     [1085, 1080, 1082, 1072, 1082],  \<comment> \<open>nikak\<close>
     [1085, 1080, 1095, 1091, 1090, 1100],  \<comment> \<open>nichut'\<close>
     [1085, 1080, 1095, 1077, 1075, 1086],  \<comment> \<open>nichego\<close>
     [1085, 1080, 1082, 1091, 1076, 1072],  \<comment> \<open>nikuda\<close>
     [1085, 1080, 1075, 1076, 1077],  \<comment> \<open>nigde\<close>
     [1085, 1080, 1082, 1090, 1086],  \<comment> \<open>nikto\<close>
     [1085, 1080, 1095, 1090, 1086]  \<comment> \<open>nichto\<close>]"

definition intensifiers :: "ustr set" where
  "intensifiers = set [
     [1078, 1077],  \<comment> \<open>zhe\<close>
     [1074, 1077, 1076, 1100],  \<comment> \<open>ved'\<close>
     [1074, 1086, 1090],  \<comment> \<open>vot\<close>
     [1087, 1088, 1103, 1084, 1086],  \<comment> \<open>pryamo\<close>
     [1087, 1088, 1086, 1089, 1090, 1086],  \<comment> \<open>prosto\<close>
     [1076, 1077, 1081, 1089, 1090, 1074, 1080, 1090, 1077, 1083, 1100, 1085, 1086],  \<comment> \<open>dejstvitel'no\<close>
     [1080, 1084, 1077, 1085, 1085, 1086],  \<comment> \<open>imenno\<close>
     [1090, 1086, 1095, 1085, 1086],  \<comment> \<open>tochno\<close>
     [1088, 1086, 1074, 1085, 1086]  \<comment> \<open>rovno\<close>]"

definition modifiers :: "(ustr \<times> real) list" where
  "modifiers = [
     ([1074, 1088, 1086, 1076, 1077], 0.7),  \<comment> \<open>vrode\<close>
     ([1082, 1072, 1082, 32, 1073, 1099], 0.6),  \<comment> \<open>kak by\<close>
     ([1090, 1080, 1087, 1072], 0.7),  \<comment> \<open>tipa\<close>
     ([1087, 1086, 1095, 1090, 1080], 0.8),  \<comment> \<open>pochti\<close>
     ([1089, 1083, 1077, 1075, 1082, 1072], 0.8),  \<comment> \<open>slegka\<close>
     ([1085, 1077, 1084, 1085, 1086, 1075, 1086], 0.8),  \<comment> \<open>nemnogo\<close>
     ([1086, 1090, 1095, 1072, 1089, 1090, 1080], 0.9),  \<comment> \<open>otchasti\<close>
     ([1095, 1072, 1089, 1090, 1080, 1095, 1085, 1086], 0.9),  \<comment> \<open>chastichno\<close>
     ([1085, 1077, 32, 1089, 1086, 1074, 1089, 1077, 1084], 0.5),  \<comment> \<open>ne sovsem\<close>
     ([1074, 32, 1085, 1077, 1082, 1086, 1090, 1086, 1088, 1086, 1081, 32, 1089, 1090, 1077, 1087, 1077, 1085, 1080], 0.8)  \<comment> \<open>v nekotoroj stepeni\<close>]"

definition contrast_words :: "ustr list" where
  "contrast_words = [
     [1085, 1086],  \<comment> \<open>no\<close>
     [1086, 1076, 1085, 1072, 1082, 1086],  \<comment> \<open>odnako\<close>
     [1090, 1077, 1084, 32, 1085, 1077, 32, 1084, 1077, 1085, 1077, 1077],  \<comment> \<open>tem ne menee\<close>
     [1074, 1087, 1088, 1086, 1095, 1077, 1084]  \<comment> \<open>vprochem\<close>]"

definition POSITIVE :: ustr where  \<comment> \<open>pozitivnaya tonal'nost'\<close>
  "POSITIVE = [1055, 1086, 1079, 1080, 1090, 1080, 1074, 1085, 1072, 1103, 32, 1090, 1086, 1085, 1072, 1083, 1100, 1085, 1086, 1089, 1090, 1100]"

definition NEGATIVE :: ustr where  \<comment> \<open>negativnaya tonal'nost'\<close>
  "NEGATIVE = [1053, 1077, 1075, 1072, 1090, 1080, 1074, 1085, 1072, 1103, 32, 1090, 1086, 1085, 1072, 1083, 1100, 1085, 1086, 1089, 1090, 1100]"

definition NEUTRAL :: ustr where  \<comment> \<open>nejtral'naya\<close>
  "NEUTRAL = [1053, 1077, 1081, 1090, 1088, 1072, 1083, 1100, 1085, 1072, 1103]"

subsection \<open>The rules applied to one token\<close>

text \<open>
  The loop \<open>for j in range(max(0, index - 3), index)\<close>: it runs forward through the window
  and returns at the first negation word it meets.  On natural numbers \<open>index - 3\<close> is
  already \<open>max(0, index - 3)\<close>.
\<close>

fun negation_loop :: "ustr set \<Rightarrow> Token list \<Rightarrow> nat \<Rightarrow> nat list \<Rightarrow> real \<Rightarrow> py_error + real" where
  "negation_loop neg tokens index [] s = Inr s"
| "negation_loop neg tokens index (j # js) s =
     (case get tokens j of
        Inl e \<Rightarrow> Inl e
      | Inr prev_token \<Rightarrow>
          if \<not> is_emoji prev_token \<and> token_value prev_token \<in> neg then
            (let distance = index - j;
                 negation_strength = 1.0 - (real distance - 1) * 0.1
             in Inr (s * (- 0.74) * negation_strength))
          else negation_loop neg tokens index js s)"

definition apply_negation_rules_enhanced ::
    "SentimentAnalyzer \<Rightarrow> Token list \<Rightarrow> nat \<Rightarrow> real \<Rightarrow> py_error + real" where
  "apply_negation_rules_enhanced an tokens index s =
     negation_loop (negation_words an) tokens index [max 0 (index - 3)..<index] s"

text \<open>The second half of the booster rule: the token after \<open>index\<close>.\<close>

definition booster_next :: "Token list \<Rightarrow> nat \<Rightarrow> real \<Rightarrow> py_error + real" where
  "booster_next tokens index s =
     (if int index < int (length tokens) - 1 then
        (case get tokens (index + 1) of
           Inl e \<Rightarrow> Inl e
         | Inr next_token \<Rightarrow>
             if \<not> is_emoji next_token \<and> token_value next_token \<in> intensifiers
             then Inr (s * 1.1) else Inr s)
      else Inr s)"

definition apply_booster_rules_enhanced ::
    "SentimentAnalyzer \<Rightarrow> Token list \<Rightarrow> nat \<Rightarrow> real \<Rightarrow> py_error + real" where
  "apply_booster_rules_enhanced an tokens index s =
     (if 0 < index then
        (case get tokens (index - 1) of
           Inl e \<Rightarrow> Inl e
         | Inr prev_token \<Rightarrow>
             if \<not> is_emoji prev_token \<and> token_value prev_token \<in> dom (booster_words an) then
               (let boost_strength = the (booster_words an (token_value prev_token))
                in Inr (s * boost_strength))
             else booster_next tokens index s)
      else booster_next tokens index s)"

text \<open>\<open>str.isupper\<close>: no lowercase or titlecase character, and at least one uppercase one.\<close>

definition py_isupper :: "unicode_db \<Rightarrow> ustr \<Rightarrow> bool" where
  "py_isupper U s = (list_all (\<lambda>c. \<not> lower_cp U c \<and> \<not> title_cp U c) s \<and> list_ex (upper_cp U) s)"

definition apply_caps_rules :: "unicode_db \<Rightarrow> ustr \<Rightarrow> real \<Rightarrow> real" where
  "apply_caps_rules U token_val s =
     (if py_isupper U token_val \<and> 1 < length token_val then s * 1.2 else s)"

text \<open>The characters \<open>!\<close> and \<open>?\<close> are the code points 33 and 63.\<close>

definition apply_emoji_punctuation_rules :: "Token \<Rightarrow> real \<Rightarrow> real" where
  "apply_emoji_punctuation_rules token s =
     (if is_emoji token then s
      else if 33 \<in> set (original_value token) then
        (let exclamation_count = count_list (original_value token) 33
         in s * (1.0 + real exclamation_count * 0.1))
      else if 63 \<in> set (original_value token) then
        (let question_count = count_list (original_value token) 63
         in s * (1.0 - real question_count * 0.05))
      else s)"

text \<open>
  The loops of the modifier and of the contrast rule, with the table they look up as an
  argument; the rules themselves apply them to the tables of the source.
\<close>

fun modifier_loop :: "(ustr \<times> real) list \<Rightarrow> Token list \<Rightarrow> nat list \<Rightarrow> real \<Rightarrow> py_error + real" where
  "modifier_loop table tokens [] s = Inr s"
| "modifier_loop table tokens (j # js) s =
     (case get tokens j of
        Inl e \<Rightarrow> Inl e
      | Inr prev_token \<Rightarrow>
          if \<not> is_emoji prev_token \<and> token_value prev_token \<in> dom (map_of table)
          then Inr (s * the (map_of table (token_value prev_token)))
          else modifier_loop table tokens js s)"

definition apply_modifier_rules_enhanced :: "Token list \<Rightarrow> nat \<Rightarrow> real \<Rightarrow> py_error + real" where
  "apply_modifier_rules_enhanced tokens index s =
     modifier_loop modifiers tokens [max 0 (index - 2)..<index] s"

fun contrast_loop :: "ustr list \<Rightarrow> Token list \<Rightarrow> nat list \<Rightarrow> real \<Rightarrow> py_error + real" where
  "contrast_loop table tokens [] s = Inr s"
| "contrast_loop table tokens (j # js) s =
     (case get tokens j of
        Inl e \<Rightarrow> Inl e
      | Inr prev_token \<Rightarrow>
          if \<not> is_emoji prev_token \<and> token_value prev_token \<in> set table
          then Inr (s * 1.3)
          else contrast_loop table tokens js s)"

definition apply_contrast_rules_enhanced :: "Token list \<Rightarrow> nat \<Rightarrow> real \<Rightarrow> py_error + real" where
  "apply_contrast_rules_enhanced tokens index s =
     contrast_loop contrast_words tokens [max 0 (index - 5)..<index] s"

subsection \<open>The global rules\<close>

text \<open>\<open>self._lexicon.get(token.value, 0)\<close>\<close>

definition emoji_score :: "SentimentAnalyzer \<Rightarrow> Token \<Rightarrow> real" where
  "emoji_score an token = (case lexicon an (token_value token) of Some v \<Rightarrow> v | None \<Rightarrow> 0)"

definition apply_global_emoji_rules :: "SentimentAnalyzer \<Rightarrow> Token list \<Rightarrow> real \<Rightarrow> real" where
  "apply_global_emoji_rules an tokens s =
     (let positive_emojis = length (filter (\<lambda>t. is_emoji t \<and> 0 < emoji_score an t) tokens);
          negative_emojis = length (filter (\<lambda>t. is_emoji t \<and> emoji_score an t < 0) tokens);
          s1 = (if 1 < positive_emojis then s * (1.0 + real positive_emojis * 0.05) else s);
          s2 = (if 1 < negative_emojis then s1 * (1.0 - real negative_emojis * 0.05) else s1);
          total_exclamations = sum_list (map (\<lambda>t. count_list (original_value t) 33) tokens);
          total_questions = sum_list (map (\<lambda>t. count_list (original_value t) 63) tokens);
          s3 = (if 0 < total_exclamations
                then s2 * (1.0 + real (min total_exclamations 10) * 0.05) else s2);
          s4 = (if 3 < total_questions
                then s3 * (1.0 - real (min (total_questions - 3) 5) * 0.03) else s3)
      in s4)"

subsection \<open>The rule engine\<close>

text \<open>
  The chain of rules for the token at position \<open>i\<close>, which is a key of the lexicon.
\<close>

definition token_score ::
    "unicode_db \<Rightarrow> SentimentAnalyzer \<Rightarrow> Token list \<Rightarrow> nat \<Rightarrow> Token \<Rightarrow> py_error + real" where
  "token_score U an tokens i token =
     (let word_score = the (lexicon an (token_value token))
      in bind_err (if \<not> is_emoji token
                   then apply_negation_rules_enhanced an tokens i word_score
                   else Inr word_score) (\<lambda>word_score.
         bind_err (apply_booster_rules_enhanced an tokens i word_score) (\<lambda>word_score.
           (let word_score = (if \<not> is_emoji token
                              then apply_caps_rules U (token_value token) word_score
                              else word_score);
                word_score = apply_emoji_punctuation_rules token word_score
            in bind_err (apply_modifier_rules_enhanced tokens i word_score) (\<lambda>word_score.
                 apply_contrast_rules_enhanced tokens i word_score)))))"

text \<open>
  The loop \<open>for i, token in enumerate(tokens)\<close>, with the running total and count.  (The
  list \<open>processed_tokens\<close> of the source is never read.)
\<close>

fun vader_loop ::
    "unicode_db \<Rightarrow> SentimentAnalyzer \<Rightarrow> Token list \<Rightarrow> (nat \<times> Token) list \<Rightarrow> real \<Rightarrow> int
       \<Rightarrow> py_error + (real \<times> int)" where
  "vader_loop U an tokens [] s wc = Inr (s, wc)"
| "vader_loop U an tokens ((i, token) # rest) s wc =
     (if token_value token \<in> dom (lexicon an) then
        (case token_score U an tokens i token of
           Inl e \<Rightarrow> Inl e
         | Inr word_score \<Rightarrow> vader_loop U an tokens rest (s + word_score) (wc + 1))
      else vader_loop U an tokens rest s wc)"

definition apply_vader_rules_enhanced ::
    "unicode_db \<Rightarrow> SentimentAnalyzer \<Rightarrow> Token list \<Rightarrow> py_error + (real \<times> int)" where
  "apply_vader_rules_enhanced U an tokens =
     (case vader_loop U an tokens (enumerate 0 tokens) 0.0 0 of
        Inl e \<Rightarrow> Inl e
      | Inr (s, wc) \<Rightarrow> Inr (apply_global_emoji_rules an tokens s, wc))"

subsection \<open>Normalisation and label\<close>

text \<open>\<open>math.sqrt\<close> raises \<open>ValueError\<close> below zero; float division by zero raises.\<close>

definition py_sqrt :: "real \<Rightarrow> py_error + real" where
  "py_sqrt x = (if x < 0 then Inl ValueError else Inr (sqrt x))"

definition py_div :: "real \<Rightarrow> real \<Rightarrow> py_error + real" where
  "py_div x y = (if y = 0 then Inl ZeroDivisionError else Inr (x / y))"

definition normalize_vader_score :: "real \<Rightarrow> int \<Rightarrow> py_error + real" where
  "normalize_vader_score s wc =
     (if wc = 0 then Inr 0.0
      else
        bind_err (py_sqrt (s + 15)) (\<lambda>root.
        bind_err (py_div s root) (\<lambda>normalized.
        bind_err (if 0 < wc
                  then bind_err (py_sqrt (1 + real_of_int wc * 0.001)) (\<lambda>root2.
                         py_div normalized root2)
                  else Inr normalized) (\<lambda>normalized.
        Inr (max (- 4.0) (min 4.0 normalized))))))"

definition get_sentiment_label :: "real \<Rightarrow> ustr" where
  "get_sentiment_label x =
     (if 0.05 \<le> x then POSITIVE else if x \<le> - 0.05 then NEGATIVE else NEUTRAL)"

subsection \<open>analyze\<close>

text \<open>
  Modelled from the spec: \<open>normalizer.RussianNormalizer.normalize\<close> is imported by
  \<open>analyze\<close>, and its module is not among the sources.  The spec gives its contract: the
  result has the same length and order, each token is a word token whose value is replaced
  by its lemma, and \<open>original_value\<close> is unchanged.  The lemma of a word is the parameter
  \<open>lem\<close>; a word whose lemma is not found keeps its value.
\<close>

definition normalize_tokens :: "(ustr \<Rightarrow> ustr) \<Rightarrow> Token list \<Rightarrow> Token list" where
  "normalize_tokens lem word_tokens =
     map (\<lambda>t. \<lparr>token_value = lem (token_value t), original_value = original_value t,
                is_emoji = False\<rparr>) word_tokens"

definition keep_value :: "ustr \<Rightarrow> ustr" where
  "keep_value w = w"

text \<open>The list \<open>all_tokens\<close> that \<open>analyze\<close> hands to the rule engine.\<close>

definition all_tokens :: "unicode_db \<Rightarrow> (ustr \<Rightarrow> ustr) \<Rightarrow> ustr \<Rightarrow> Token list" where
  "all_tokens U lem text =
     (let tokens = tokenize_with_positions U text;
          emoji_tokens = filter (\<lambda>token. is_emoji token) tokens;
          word_tokens = filter (\<lambda>token. \<not> is_emoji token) tokens;
          normalized_words = normalize_tokens lem word_tokens
      in normalized_words @ emoji_tokens)"

definition analyze ::
    "unicode_db \<Rightarrow> (ustr \<Rightarrow> ustr) \<Rightarrow> SentimentAnalyzer \<Rightarrow> ustr \<Rightarrow> py_error + SentimentResult" where
  "analyze U lem an text =
     (case apply_vader_rules_enhanced U an (all_tokens U lem text) of
        Inl e \<Rightarrow> Inl e
      | Inr (s, wc) \<Rightarrow>
          (case normalize_vader_score s wc of
             Inl e \<Rightarrow> Inl e
           | Inr normalized_score \<Rightarrow>
               Inr \<lparr>score = normalized_score,
                    sentiment = get_sentiment_label normalized_score,
                    word_count = wc\<rparr>))"

text \<open>
  The tables of the runtime on Basic Latin and on the Cyrillic letters U+0400..U+045F, for
  evaluating the model on texts that have no other letter or digit.
\<close>

definition basic_unicode :: unicode_db where
  "basic_unicode =
     \<lparr>word_class = (\<lambda>c. (48 \<le> c \<and> c \<le> 57) \<or> (65 \<le> c \<and> c \<le> 90) \<or> c = 95
                          \<or> (97 \<le> c \<and> c \<le> 122) \<or> (0x400 \<le> c \<and> c \<le> 0x45F)),
      upper_cp = (\<lambda>c. (65 \<le> c \<and> c \<le> 90) \<or> (0x400 \<le> c \<and> c \<le> 0x42F)),
      lower_cp = (\<lambda>c. (97 \<le> c \<and> c \<le> 122) \<or> (0x430 \<le> c \<and> c \<le> 0x45F)),
      title_cp = (\<lambda>c. False)\<rparr>"

subsection \<open>Loading the lexicon\<close>

text \<open>
  What \<open>_load_tonal_lexicon\<close> meets on disk: no file; a file that \<open>open\<close> refuses; or a
  file whose iteration delivers the given lines and then either ends (\<open>True\<close>) or raises
  (\<open>False\<close>), as it does on an I/O error or on bytes that are not UTF-8.
\<close>

datatype lexicon_file = Missing | OpenFails | Readable "ustr list" bool

text \<open>\<open>str.strip()\<close>, \<open>str.split('\t')\<close> and \<open>str.replace(',', '.')\<close>.\<close>

definition py_isspace :: "nat \<Rightarrow> bool" where
  "py_isspace c =
     ((9 \<le> c \<and> c \<le> 13) \<or> (28 \<le> c \<and> c \<le> 32) \<or> c = 133 \<or> c = 160 \<or> c = 5760
      \<or> (8192 \<le> c \<and> c \<le> 8202) \<or> c = 8232 \<or> c = 8233 \<or> c = 8239 \<or> c = 8287
      \<or> c = 12288)"

definition strip :: "ustr \<Rightarrow> ustr" where
  "strip s = rev (dropWhile py_isspace (rev (dropWhile py_isspace s)))"

fun split_on :: "nat \<Rightarrow> ustr \<Rightarrow> ustr list" where
  "split_on sep [] = [[]]"
| "split_on sep (c # cs) =
     (if c = sep then [] # split_on sep cs
      else (case split_on sep cs of [] \<Rightarrow> [[c]] | p # ps \<Rightarrow> (c # p) # ps))"

definition replace_comma :: "ustr \<Rightarrow> ustr" where
  "replace_comma s = map (\<lambda>c. if c = 44 then 46 else c) s"

text \<open>
  The body of the loop over the lines.  \<open>pyfloat\<close> is the builtin \<open>float\<close> on strings, a
  parameter of the model: \<open>None\<close> stands for \<open>ValueError\<close> (a string that \<open>float\<close> reads
  as an infinity or a NaN has no real value and is outside the model).  The first loop
  replaces the decimal comma and strips the score (\<open>fix\<close>); the loop of the handler does
  not.
\<close>

definition store_line ::
    "(ustr \<Rightarrow> real option) \<Rightarrow> bool \<Rightarrow> (ustr \<rightharpoonup> real) \<Rightarrow> ustr \<Rightarrow> (ustr \<rightharpoonup> real)" where
  "store_line pyfloat fix lx raw_line =
     (let line = strip raw_line
      in if line = [] then lx
         else
           (let parts = split_on 9 line
            in if 2 \<le> length parts then
                 (let word = strip (parts ! 0);
                      score_str = (if fix then strip (replace_comma (parts ! 1)) else parts ! 1)
                  in case pyfloat score_str of
                       Some v \<Rightarrow> lx(word \<mapsto> v)
                     | None \<Rightarrow> lx)
               else lx))"

text \<open>
  One \<open>try\<close> block: the lexicon it leaves, and whether it ended without an exception.
\<close>

definition load_attempt ::
    "(ustr \<Rightarrow> real option) \<Rightarrow> bool \<Rightarrow> lexicon_file \<Rightarrow> (ustr \<rightharpoonup> real) \<Rightarrow> (ustr \<rightharpoonup> real) \<times> bool" where
  "load_attempt pyfloat fix file lx =
     (case file of
        Missing \<Rightarrow> (lx, True)
      | OpenFails \<Rightarrow> (lx, False)
      | Readable ls ended \<Rightarrow> (foldl (store_line pyfloat fix) lx ls, ended))"

text \<open>
  \<open>_load_tonal_lexicon\<close>: when the first block raises, the handler runs the second block
  on the same file, and catches what that one raises.
\<close>

definition load_tonal_lexicon ::
    "(ustr \<Rightarrow> real option) \<Rightarrow> lexicon_file \<Rightarrow> (ustr \<rightharpoonup> real) \<Rightarrow> (ustr \<rightharpoonup> real)" where
  "load_tonal_lexicon pyfloat file lx =
     (case load_attempt pyfloat True file lx of
        (lx1, True) \<Rightarrow> lx1
      | (lx1, False) \<Rightarrow> fst (load_attempt pyfloat False file lx1))"

text \<open>\<open>SentimentAnalyzer.__init__\<close>\<close>

definition SentimentAnalyzer_init :: "(ustr \<Rightarrow> real option) \<Rightarrow> lexicon_file \<Rightarrow> SentimentAnalyzer" where
  "SentimentAnalyzer_init pyfloat file =
     \<lparr>lexicon = load_tonal_lexicon pyfloat file Map.empty,
      booster_words = load_booster_words,
      negation_words = load_negation_words\<rparr>"

text \<open>\<open>float\<close> on the strings of one decimal digit, for evaluating the loader.\<close>

definition digit_float :: "ustr \<Rightarrow> real option" where
  "digit_float s = (case s of [d] \<Rightarrow> if 48 \<le> d \<and> d \<le> 57 then Some (real (d - 48)) else None
                    | _ \<Rightarrow> None)"

subsection \<open>The single-word entries of the modifier and contrast tables\<close>

text \<open>
  The entries of the two tables whose key has no space (code point 32): all but ``kak by'',
  ``ne sovsem'', ``v nekotoroj stepeni'' and ``tem ne menee''.
\<close>

definition single_word_modifiers :: "(ustr \<times> real) list" where
  "single_word_modifiers = filter (\<lambda>(k, m). 32 \<notin> set k) modifiers"

definition single_word_contrast :: "ustr list" where
  "single_word_contrast = filter (\<lambda>k. 32 \<notin> set k) contrast_words"

section \<open>Sample data\<close>

text \<open>
  A small lexicon and some texts, for evaluating the model: ``horosho'' (good), ``ploho''
  (bad), ``otlichno'' (excellent).
\<close>

definition word_horosho :: ustr where
  "word_horosho = [1093, 1086, 1088, 1086, 1096, 1086]"

definition word_ploho :: ustr where
  "word_ploho = [1087, 1083, 1086, 1093, 1086]"

definition word_otlichno :: ustr where
  "word_otlichno = [1086, 1090, 1083, 1080, 1095, 1085, 1086]"

definition sample_analyzer :: SentimentAnalyzer where
  "sample_analyzer =
     \<lparr>lexicon = [word_horosho \<mapsto> 2, word_ploho \<mapsto> - 4, word_otlichno \<mapsto> 3],
      booster_words = load_booster_words,
      negation_words = load_negation_words\<rparr>"

text \<open>The text ``ploho ploho ploho ploho''.\<close>

definition text_ploho4 :: ustr where
  "text_ploho4 = [1087, 1083, 1086, 1093, 1086, 32, 1087, 1083, 1086, 1093, 1086, 32,
                  1087, 1083, 1086, 1093, 1086, 32, 1087, 1083, 1086, 1093, 1086]"

text \<open>The text ``ne ne ploho'' (not not bad).\<close>

definition text_ne_ne_ploho :: ustr where
  "text_ne_ne_ploho = [1085, 1077, 32, 1085, 1077, 32, 1087, 1083, 1086, 1093, 1086]"

text \<open>
  The texts ``absolyutno horosho'' (absolutely good), ``OTLICHNO'' in capitals,
  ``horosho :) ploho'' and ``ne''.
\<close>

definition text_absolyutno_horosho :: ustr where
  "text_absolyutno_horosho = [1072, 1073, 1089, 1086, 1083, 1102, 1090, 1085, 1086, 32,
                              1093, 1086, 1088, 1086, 1096, 1086]"

definition text_OTLICHNO :: ustr where
  "text_OTLICHNO = [1054, 1058, 1051, 1048, 1063, 1053, 1054]"

definition text_smile :: ustr where
  "text_smile = [1093, 1086, 1088, 1086, 1096, 1086, 32, 58, 41, 32,
                 1087, 1083, 1086, 1093, 1086]"

definition text_ne :: ustr where
  "text_ne = [1085, 1077]"

text \<open>
  A lexicon file whose first line is ``horosho<TAB>2'' and whose iteration raises after
  that line.
\<close>

definition broken_lexicon_file :: lexicon_file where
  "broken_lexicon_file = Readable [word_horosho @ [9, 50, 10]] False"




section \<open>Evaluation and totality\<close>

lemmas tok_defs = tokenize_with_positions_def tokens_of_match_def match_at_def match_word_def
  match_symbol_def match_emoticon_def word_boundary_def is_word_def cyr_letter_def
  symbol_ranges_def eyes_def nose_def mouth_def trailing_punct_def basic_unicode_def lower_def
  lower_cp_of_def strip_trailing_punct_def all_tokens_def normalize_tokens_def keep_value_def
  Let_def

lemmas engine_defs = apply_vader_rules_enhanced_def token_score_def bind_err_def get_def
  apply_negation_rules_enhanced_def apply_booster_rules_enhanced_def booster_next_def
  apply_caps_rules_def py_isupper_def apply_emoji_punctuation_rules_def
  apply_modifier_rules_enhanced_def apply_contrast_rules_enhanced_def
  apply_global_emoji_rules_def emoji_score_def
  load_booster_words_def load_negation_words_def intensifiers_def modifiers_def
  contrast_words_def

lemmas sample_defs = sample_analyzer_def word_horosho_def word_ploho_def word_otlichno_def

text \<open>No rule reads outside the token list, so the rule engine always returns.\<close>

lemma not_isl_Inr: "\<not> isl x \<Longrightarrow> \<exists>r. x = Inr r"
  by (cases x) simp_all

lemma get_in_range: "i < length xs \<Longrightarrow> get xs i = Inr (xs ! i)"
  by (simp add: get_def)

lemma negation_loop_total:
  "\<forall>j \<in> set js. j < length tokens \<Longrightarrow> \<not> isl (negation_loop neg tokens index js s)"
  by (induction js) (simp_all add: get_def Let_def)

lemma modifier_loop_total:
  "\<forall>j \<in> set js. j < length tokens \<Longrightarrow> \<not> isl (modifier_loop table tokens js s)"
  by (induction js) (simp_all add: get_def)

lemma contrast_loop_total:
  "\<forall>j \<in> set js. j < length tokens \<Longrightarrow> \<not> isl (contrast_loop table tokens js s)"
  by (induction js) (simp_all add: get_def)

lemma booster_next_total: "\<not> isl (booster_next tokens index s)"
  by (simp add: booster_next_def get_def)

lemma booster_total:
  "index < length tokens \<Longrightarrow> \<not> isl (apply_booster_rules_enhanced an tokens index s)"
  by (auto simp: apply_booster_rules_enhanced_def get_def Let_def booster_next_total)

lemma negation_total:
  "index < length tokens \<Longrightarrow> \<not> isl (apply_negation_rules_enhanced an tokens index s)"
  by (simp add: apply_negation_rules_enhanced_def negation_loop_total)

lemma modifier_total:
  "index < length tokens \<Longrightarrow> \<not> isl (apply_modifier_rules_enhanced tokens index s)"
  by (simp add: apply_modifier_rules_enhanced_def modifier_loop_total)

lemma contrast_total:
  "index < length tokens \<Longrightarrow> \<not> isl (apply_contrast_rules_enhanced tokens index s)"
  by (simp add: apply_contrast_rules_enhanced_def contrast_loop_total)

lemma bind_err_total: "\<not> isl m \<Longrightarrow> (\<And>x. \<not> isl (f x)) \<Longrightarrow> \<not> isl (bind_err m f)"
  by (cases m) (simp_all add: bind_err_def)

lemma token_score_total:
  assumes "i < length tokens"
  shows "\<not> isl (token_score U an tokens i token)"
  unfolding token_score_def Let_def
  by (intro bind_err_total)
     (simp_all add: assms negation_total booster_total modifier_total contrast_total)

lemma vader_loop_total:
  "\<forall>p \<in> set ps. fst p < length tokens \<Longrightarrow> \<not> isl (vader_loop U an tokens ps s wc)"
proof (induction ps arbitrary: s wc)
  case Nil
  then show ?case by simp
next
  case (Cons p ps)
  obtain i token where p: "p = (i, token)" by (cases p)
  from Cons.prems p have i: "i < length tokens" by simp
  obtain w where w: "token_score U an tokens i token = Inr w"
    using token_score_total [OF i] not_isl_Inr by blast
  from Cons.prems have rest: "\<forall>p \<in> set ps. fst p < length tokens" by simp
  show ?case
    using Cons.IH [OF rest] by (simp add: p w)
qed

lemma enumerate_in_range: "\<forall>p \<in> set (enumerate 0 tokens). fst p < length tokens"
  by (auto simp: in_set_enumerate_eq)

lemma apply_vader_rules_total: "\<exists>s wc. apply_vader_rules_enhanced U an tokens = Inr (s, wc)"
proof -
  obtain r where "vader_loop U an tokens (enumerate 0 tokens) 0.0 0 = Inr r"
    using vader_loop_total [OF enumerate_in_range] not_isl_Inr by blast
  then show ?thesis
    by (cases r) (simp add: apply_vader_rules_enhanced_def)
qed

lemma normalize_in_range:
  "normalize_vader_score s wc = Inr r \<Longrightarrow> - 4 \<le> r \<and> r \<le> 4"
  by (auto simp: normalize_vader_score_def bind_err_def py_sqrt_def py_div_def
      split: if_splits sum.splits)

lemma normalize_returns_iff:
  "(\<exists>r. normalize_vader_score s wc = Inr r) \<longleftrightarrow> (wc = 0 \<or> - 15 < s)"
  by (auto simp: normalize_vader_score_def bind_err_def py_sqrt_def py_div_def
      split: if_splits sum.splits)


lemma normalize_raises:
  "wc \<noteq> 0 \<Longrightarrow> s < - 15 \<Longrightarrow> normalize_vader_score s wc = Inl ValueError"
  by (simp add: normalize_vader_score_def bind_err_def py_sqrt_def)

lemma analyze_returns_iff:
  "(\<exists>res. analyze U lem an text = Inr res) \<longleftrightarrow>
     (\<exists>s wc. apply_vader_rules_enhanced U an (all_tokens U lem text) = Inr (s, wc)
        \<and> (wc = 0 \<or> - 15 < s))"
proof -
  obtain s wc where e: "apply_vader_rules_enhanced U an (all_tokens U lem text) = Inr (s, wc)"
    using apply_vader_rules_total by blast
  show ?thesis
    using normalize_returns_iff [of s wc]
    by (auto simp: analyze_def e split: sum.splits)
qed

lemma engine_horosho:
  "apply_vader_rules_enhanced basic_unicode sample_analyzer
     (all_tokens basic_unicode keep_value word_horosho) = Inr (2, 1)"
  by (simp add: tok_defs engine_defs sample_defs)

lemma engine_ploho4:
  "apply_vader_rules_enhanced basic_unicode sample_analyzer
     (all_tokens basic_unicode keep_value text_ploho4) = Inr (- 16, 4)"
  by (simp add: tok_defs engine_defs sample_defs text_ploho4_def)

section \<open>The range of the score\<close>

text \<open>
  C1.  Whenever \<open>analyze\<close> returns a result, its score lies between \<open>-4.0\<close> and \<open>4.0\<close>; and
  whatever the score normalizer returns lies in that interval, since its last step clamps.
\<close>

theorem score_in_range:
  "(analyze U lem an text = Inr res \<longrightarrow> - 4 \<le> score res \<and> score res \<le> 4)
   \<and> (normalize_vader_score s wc = Inr r \<longrightarrow> - 4 \<le> r \<and> r \<le> 4)"
  using normalize_in_range
  by (auto simp: analyze_def split: sum.splits prod.splits)

theorem score_in_range_witness:
  "(\<exists>res. analyze basic_unicode keep_value sample_analyzer word_horosho = Inr res
      \<and> - 4 \<le> score res \<and> score res \<le> 4)
   \<and> (\<exists>r. normalize_vader_score 2 1 = Inr r \<and> - 4 \<le> r \<and> r \<le> 4)"
proof -
  have "\<exists>res. analyze basic_unicode keep_value sample_analyzer word_horosho = Inr res"
    by (simp add: analyze_returns_iff engine_horosho)
  then obtain res where
    res: "analyze basic_unicode keep_value sample_analyzer word_horosho = Inr res" by blast
  have "\<exists>r. normalize_vader_score 2 1 = Inr r"
    by (simp add: normalize_returns_iff)
  then obtain r where r: "normalize_vader_score 2 1 = Inr r" by blast
  show ?thesis
    using score_in_range [of basic_unicode keep_value sample_analyzer word_horosho res 2 1 r]
      res r by simp
qed

text \<open>
  C2.  The normalizer has no guard for a raw score of \<open>-15\<close> or less: the square root of
  \<open>score + 15\<close> raises \<open>ValueError\<close> below \<open>-15\<close>, and the division by it raises
  \<open>ZeroDivisionError\<close> at \<open>-15\<close>.  The exception leaves \<open>analyze\<close>: four times ``ploho''
  with a lexicon score of \<open>-4\<close> is a raw score of \<open>-16\<close>.
\<close>

theorem normalize_raises_at_minus_16:
  "normalize_vader_score (- 16) 4 = Inl ValueError
   \<and> normalize_vader_score (- 15) 4 = Inl ZeroDivisionError
   \<and> analyze basic_unicode keep_value sample_analyzer text_ploho4 = Inl ValueError"
  by (simp add: analyze_def engine_ploho4 normalize_vader_score_def bind_err_def py_sqrt_def
      py_div_def)

section \<open>The label\<close>

text \<open>
  C8.  The label depends on the normalized score alone: \<open>0.05\<close> or more is positive,
  \<open>-0.05\<close> or less is negative, anything strictly between is neutral; the three labels
  differ, and the label of a result is the label of its score.
\<close>

theorem label_thresholds:
  "(0.05 \<le> x \<longrightarrow> get_sentiment_label x = POSITIVE)
   \<and> (x \<le> - 0.05 \<longrightarrow> get_sentiment_label x = NEGATIVE)
   \<and> (- 0.05 < x \<and> x < 0.05 \<longrightarrow> get_sentiment_label x = NEUTRAL)
   \<and> (analyze U lem an text = Inr res \<longrightarrow> sentiment res = get_sentiment_label (score res))
   \<and> distinct [POSITIVE, NEGATIVE, NEUTRAL]"
  by (auto simp: get_sentiment_label_def analyze_def POSITIVE_def NEGATIVE_def NEUTRAL_def
      split: sum.splits prod.splits)

theorem label_thresholds_witness:
  "get_sentiment_label 0.05 = POSITIVE \<and> get_sentiment_label (- 0.05) = NEGATIVE
   \<and> get_sentiment_label 0 = NEUTRAL
   \<and> (\<exists>res. analyze basic_unicode keep_value sample_analyzer word_horosho = Inr res
        \<and> sentiment res = get_sentiment_label (score res))"
proof -
  have "\<exists>res. analyze basic_unicode keep_value sample_analyzer word_horosho = Inr res"
    by (simp add: analyze_returns_iff engine_horosho)
  then obtain res where
    res: "analyze basic_unicode keep_value sample_analyzer word_horosho = Inr res" by blast
  show ?thesis
    using label_thresholds [of "0.05" basic_unicode keep_value sample_analyzer word_horosho res]
      label_thresholds [of "- 0.05"] label_thresholds [of 0] res
    by simp
qed

section \<open>The negation rule\<close>

lemma upt_split: "a \<le> j \<Longrightarrow> j < i \<Longrightarrow> [a..<i] = [a..<j] @ j # [Suc j..<i]"
proof -
  assume a: "a \<le> j" and j: "j < i"
  have "[a..<j + (i - j)] = [a..<j] @ [j..<j + (i - j)]"
    using a by (rule upt_add_eq_append)
  then have "[a..<i] = [a..<j] @ [j..<i]" using j by simp
  then show ?thesis using j by (simp add: upt_conv_Cons)
qed

lemma negation_loop_first:
  "\<forall>k \<in> set pre. k < length tokens \<and> (is_emoji (tokens ! k) \<or> token_value (tokens ! k) \<notin> neg)
   \<Longrightarrow> j < length tokens \<Longrightarrow> \<not> is_emoji (tokens ! j) \<Longrightarrow> token_value (tokens ! j) \<in> neg
   \<Longrightarrow> negation_loop neg tokens index (pre @ j # post) s
       = Inr (s * (- 0.74) * (1.0 - (real (index - j) - 1) * 0.1))"
  by (induction pre) (auto simp: get_def Let_def)

lemma negation_loop_none:
  "\<forall>k \<in> set js. k < length tokens \<and> (is_emoji (tokens ! k) \<or> token_value (tokens ! k) \<notin> neg)
   \<Longrightarrow> negation_loop neg tokens index js s = Inr s"
  by (induction js) (auto simp: get_def Let_def)

lemma all_tokens_ne_ne_ploho:
  "all_tokens basic_unicode keep_value text_ne_ne_ploho =
     [\<lparr>token_value = [1085, 1077], original_value = [1085, 1077], is_emoji = False\<rparr>,
      \<lparr>token_value = [1085, 1077], original_value = [1085, 1077], is_emoji = False\<rparr>,
      \<lparr>token_value = word_ploho, original_value = word_ploho, is_emoji = False\<rparr>]"
  by (simp add: tok_defs text_ne_ne_ploho_def word_ploho_def)

text \<open>
  C3, as stated, fails.  In ``ne ne ploho'' the scored word is at position 2 and both
  positions before it hold a negation word.  The nearest one is at distance 1, which would
  give the factor \<open>-0.74\<close>; the rule applies the one at distance 2, with the factor
  \<open>-0.74 * 0.9\<close>.
\<close>

theorem negation_nearest_counterexample:
  "apply_negation_rules_enhanced sample_analyzer
      (all_tokens basic_unicode keep_value text_ne_ne_ploho) 2 (- 4)
     = Inr (- 4 * (- 0.74) * (1.0 - (2 - 1) * 0.1))
   \<and> apply_negation_rules_enhanced sample_analyzer
      (all_tokens basic_unicode keep_value text_ne_ne_ploho) 2 (- 4)
     \<noteq> Inr (- 4 * (- 0.74) * (1.0 - (1 - 1) * 0.1))"
  by (simp add: all_tokens_ne_ne_ploho apply_negation_rules_enhanced_def get_def
      sample_analyzer_def load_negation_words_def upt_conv_Cons)

text \<open>
  C3, amended.  The loop runs forward from \<open>max(0, i - 3)\<close> and stops at its first hit, so
  the negation word applied is the one farthest from \<open>i\<close> in the window (the smallest
  \<open>j\<close>): when position \<open>j\<close> of the window holds a negation word that is not an emoji and
  no earlier position of the window does, the score becomes
  \<open>score * -0.74 * (1.0 - (d - 1) * 0.1)\<close> with \<open>d = i - j\<close>.
\<close>

theorem negation_farthest:
  assumes "i < length tokens" and "i - 3 \<le> j" and "j < i"
    and "\<not> is_emoji (tokens ! j)" and "token_value (tokens ! j) \<in> negation_words an"
    and "\<forall>k. i - 3 \<le> k \<and> k < j \<longrightarrow>
           is_emoji (tokens ! k) \<or> token_value (tokens ! k) \<notin> negation_words an"
  shows "apply_negation_rules_enhanced an tokens i s
           = Inr (s * (- 0.74) * (1.0 - (real (i - j) - 1) * 0.1))"
proof -
  have split: "[max 0 (i - 3)..<i] = [i - 3..<j] @ j # [Suc j..<i]"
    using assms(2,3) by (simp add: upt_split)
  have pre: "\<forall>k \<in> set [i - 3..<j]. k < length tokens
               \<and> (is_emoji (tokens ! k) \<or> token_value (tokens ! k) \<notin> negation_words an)"
    using assms(1,3,6) by auto
  have j: "j < length tokens" using assms(1,3) by simp
  show ?thesis
    unfolding apply_negation_rules_enhanced_def split
    by (rule negation_loop_first [OF pre j assms(4) assms(5)])
qed

theorem negation_farthest_witness:
  "2 < length (all_tokens basic_unicode keep_value text_ne_ne_ploho)
   \<and> token_value (all_tokens basic_unicode keep_value text_ne_ne_ploho ! 0)
       \<in> negation_words sample_analyzer
   \<and> token_value (all_tokens basic_unicode keep_value text_ne_ne_ploho ! 1)
       \<in> negation_words sample_analyzer
   \<and> apply_negation_rules_enhanced sample_analyzer
       (all_tokens basic_unicode keep_value text_ne_ne_ploho) 2 (- 4) = Inr (2664 / 1000)"
  using negation_farthest [of 2 "all_tokens basic_unicode keep_value text_ne_ne_ploho" 0
      sample_analyzer "- 4"]
  by (simp add: all_tokens_ne_ne_ploho sample_analyzer_def load_negation_words_def)

section \<open>Texts without a match, and the zero score\<close>

lemma global_rules_zero: "apply_global_emoji_rules an tokens 0 = 0"
  by (simp add: apply_global_emoji_rules_def Let_def)

lemma vader_loop_count:
  "vader_loop U an tokens ps s wc = Inr (s', wc') \<Longrightarrow>
     wc' = wc + int (length (filter (\<lambda>p. token_value (snd p) \<in> dom (lexicon an)) ps))"
proof (induction U an tokens ps s wc rule: vader_loop.induct)
  case (1 U an tokens s wc)
  then show ?case by simp
next
  case (2 U an tokens i token rest s wc)
  show ?case
  proof (cases "token_value token \<in> dom (lexicon an)")
    case True
    with "2.prems" obtain w where w: "token_score U an tokens i token = Inr w"
      and rec: "vader_loop U an tokens rest (s + w) (wc + 1) = Inr (s', wc')"
      by (auto split: sum.splits)
    from "2.IH"(1) [OF True w rec] True show ?thesis by simp
  next
    case False
    with "2.prems" have rec: "vader_loop U an tokens rest s wc = Inr (s', wc')" by simp
    from "2.IH"(2) [OF False rec] False show ?thesis by simp
  qed
qed

lemma vader_loop_no_match:
  "\<forall>p \<in> set ps. token_value (snd p) \<notin> dom (lexicon an) \<Longrightarrow>
     vader_loop U an tokens ps s wc = Inr (s, wc)"
proof (induction ps arbitrary: s wc)
  case Nil
  then show ?case by simp
next
  case (Cons p ps)
  obtain i token where p: "p = (i, token)" by (cases p)
  from Cons.prems p have no: "token_value token \<notin> dom (lexicon an)" by simp
  from Cons.prems have rest: "\<forall>p \<in> set ps. token_value (snd p) \<notin> dom (lexicon an)" by simp
  show ?case
    unfolding p using no Cons.IH [OF rest] by simp
qed

lemma engine_no_match:
  assumes "\<forall>t \<in> set tokens. token_value t \<notin> dom (lexicon an)"
  shows "apply_vader_rules_enhanced U an tokens = Inr (0, 0)"
proof -
  have "\<forall>p \<in> set (enumerate 0 tokens). token_value (snd p) \<notin> dom (lexicon an)"
    using assms by (auto simp: in_set_enumerate_eq)
  then have "vader_loop U an tokens (enumerate 0 tokens) 0.0 0 = Inr (0.0, 0)"
    by (rule vader_loop_no_match)
  then show ?thesis
    by (simp add: apply_vader_rules_enhanced_def global_rules_zero)
qed

lemma label_zero: "get_sentiment_label 0 = NEUTRAL"
  by (simp add: get_sentiment_label_def)

lemma analyze_no_match:
  assumes "\<forall>t \<in> set (all_tokens U lem text). token_value t \<notin> dom (lexicon an)"
  shows "analyze U lem an text = Inr \<lparr>score = 0, sentiment = NEUTRAL, word_count = 0\<rparr>"
  by (simp add: analyze_def engine_no_match [OF assms] normalize_vader_score_def label_zero)

lemma engine_absolyutno_horosho:
  "apply_vader_rules_enhanced basic_unicode sample_analyzer
     (all_tokens basic_unicode keep_value text_absolyutno_horosho) = Inr (0, 1)"
  by (simp add: tok_defs engine_defs sample_defs text_absolyutno_horosho_def)

text \<open>
  C6, as stated, fails in one direction.  In ``absolyutno horosho'' the word ``horosho'' is
  in the lexicon, so one word is counted; the booster ``absolyutno'' before it has the
  multiplier \<open>0.0\<close>, so the raw score and the normalized score are exactly \<open>0.0\<close>.
\<close>

theorem zero_score_counterexample:
  "analyze basic_unicode keep_value sample_analyzer text_absolyutno_horosho
     = Inr \<lparr>score = 0, sentiment = NEUTRAL, word_count = 1\<rparr>"
  by (simp add: analyze_def engine_absolyutno_horosho normalize_vader_score_def bind_err_def
      py_sqrt_def py_div_def label_zero)

text \<open>
  C6, amended.  A word count of 0 forces the score \<open>0.0\<close> and the neutral label: every
  result with \<open>word_count = 0\<close> has them, and a text none of whose tokens is in the lexicon
  is analysed to exactly that result.  The converse is not claimed.
\<close>

theorem zero_count_zero_score:
  "(analyze U lem an text = Inr res \<and> word_count res = 0
      \<longrightarrow> score res = 0 \<and> sentiment res = NEUTRAL)
   \<and> ((\<forall>t \<in> set (all_tokens U lem text). token_value t \<notin> dom (lexicon an))
      \<longrightarrow> analyze U lem an text = Inr \<lparr>score = 0, sentiment = NEUTRAL, word_count = 0\<rparr>)"
  using analyze_no_match [of U lem "text" an]
  by (auto simp: analyze_def normalize_vader_score_def label_zero split: sum.splits prod.splits)

theorem zero_count_zero_score_witness:
  "map token_value (all_tokens basic_unicode keep_value text_ne) = [text_ne]
   \<and> lexicon sample_analyzer text_ne = None
   \<and> analyze basic_unicode keep_value sample_analyzer text_ne
       = Inr \<lparr>score = 0, sentiment = NEUTRAL, word_count = 0\<rparr>"
proof -
  have toks: "map token_value (all_tokens basic_unicode keep_value text_ne) = [text_ne]"
    by (simp add: tok_defs text_ne_def)
  have none: "lexicon sample_analyzer text_ne = None"
    by (simp add: sample_defs text_ne_def)
  have no: "\<forall>t \<in> set (all_tokens basic_unicode keep_value text_ne).
              token_value t \<notin> dom (lexicon sample_analyzer)"
  proof
    fix t assume "t \<in> set (all_tokens basic_unicode keep_value text_ne)"
    then have "token_value t \<in> set (map token_value (all_tokens basic_unicode keep_value text_ne))"
      by simp
    then have "token_value t = text_ne" unfolding toks by simp
    then show "token_value t \<notin> dom (lexicon sample_analyzer)"
      using none by (simp add: domIff)
  qed
  show ?thesis
    using zero_count_zero_score [of basic_unicode keep_value sample_analyzer text_ne
        "\<lparr>score = 0, sentiment = NEUTRAL, word_count = 0\<rparr>"] no toks none
    by simp
qed

section \<open>The caps rule\<close>

text \<open>
  C5.  The caps rule tests \<open>token.value\<close>, which the tokenizer has already lowercased, so
  it does not fire on a word written in capitals: ``OTLICHNO'' and ``otlichno'' get the same
  raw score 3 (the lexicon score), not \<open>3.6\<close> and \<open>3\<close>.
\<close>

theorem caps_rule_without_effect:
  "apply_vader_rules_enhanced basic_unicode sample_analyzer
     (all_tokens basic_unicode keep_value text_OTLICHNO) = Inr (3, 1)
   \<and> apply_vader_rules_enhanced basic_unicode sample_analyzer
     (all_tokens basic_unicode keep_value word_otlichno) = Inr (3, 1)"
  by (simp add: tok_defs engine_defs sample_defs text_OTLICHNO_def)

section \<open>The order of the tokens the rule engine receives\<close>

text \<open>
  C4, as stated, fails.  In ``horosho :) ploho'' the emoticon stands between the two words
  in the output of the tokenizer, and behind both of them in the list \<open>analyze\<close> hands to
  the rule engine.
\<close>

theorem emoji_moved_counterexample:
  "map original_value (tokenize_with_positions basic_unicode text_smile)
     = [word_horosho, [58, 41], word_ploho]
   \<and> map original_value (all_tokens basic_unicode keep_value text_smile)
     = [word_horosho, word_ploho, [58, 41]]"
  by (simp add: tok_defs sample_defs text_smile_def)

lemma filter_normalize_emoji: "filter is_emoji (normalize_tokens lem ws) = []"
  by (induction ws) (simp_all add: normalize_tokens_def)

lemma filter_normalize_word:
  "filter (\<lambda>t. \<not> is_emoji t) (normalize_tokens lem ws) = normalize_tokens lem ws"
  by (induction ws) (simp_all add: normalize_tokens_def)

lemma original_normalize: "map original_value (normalize_tokens lem ws) = map original_value ws"
  by (simp add: normalize_tokens_def o_def)

text \<open>
  C4, amended.  The rule engine receives the normalized word tokens, in the order the
  tokenizer gave them, followed by the emoji tokens, in the order the tokenizer gave them:
  the order within each of the two kinds is kept, and every word token comes before every
  emoji token.
\<close>

theorem all_tokens_order:
  "all_tokens U lem text
     = normalize_tokens lem (filter (\<lambda>t. \<not> is_emoji t) (tokenize_with_positions U text))
       @ filter is_emoji (tokenize_with_positions U text)
   \<and> filter is_emoji (all_tokens U lem text) = filter is_emoji (tokenize_with_positions U text)
   \<and> map original_value (filter (\<lambda>t. \<not> is_emoji t) (all_tokens U lem text))
       = map original_value (filter (\<lambda>t. \<not> is_emoji t) (tokenize_with_positions U text))
   \<and> all_tokens U lem text
       = filter (\<lambda>t. \<not> is_emoji t) (all_tokens U lem text) @ filter is_emoji (all_tokens U lem text)"
  by (simp add: all_tokens_def Let_def filter_normalize_emoji filter_normalize_word
      original_normalize)

section \<open>Loading fails\<close>

lemmas loader_defs = SentimentAnalyzer_init_def load_tonal_lexicon_def load_attempt_def
  store_line_def strip_def py_isspace_def replace_comma_def digit_float_def

lemma broken_lexicon:
  "lexicon (SentimentAnalyzer_init digit_float broken_lexicon_file) = [word_horosho \<mapsto> 2]"
  by (simp add: loader_defs broken_lexicon_file_def word_horosho_def Let_def)

lemma init_tables:
  "booster_words (SentimentAnalyzer_init pyfloat file) = load_booster_words"
  "negation_words (SentimentAnalyzer_init pyfloat file) = load_negation_words"
  by (simp_all add: SentimentAnalyzer_init_def)

lemma engine_broken:
  "apply_vader_rules_enhanced basic_unicode (SentimentAnalyzer_init digit_float broken_lexicon_file)
     (all_tokens basic_unicode keep_value word_horosho) = Inr (2, 1)"
  by (simp add: tok_defs engine_defs broken_lexicon init_tables word_horosho_def)

text \<open>
  C7, as stated, fails for a load that fails part-way.  Each line is stored in \<open>_lexicon\<close>
  as soon as it is parsed, and the handler of the exception does not clear the lexicon: when
  the iteration over the file raises after the line ``horosho<TAB>2'', the analyzer goes on
  with that entry, and the text ``horosho'' is not analysed to a word count of 0.
\<close>

theorem partial_lexicon_counterexample:
  "lexicon (SentimentAnalyzer_init digit_float broken_lexicon_file) word_horosho = Some 2
   \<and> analyze basic_unicode keep_value (SentimentAnalyzer_init digit_float broken_lexicon_file)
        word_horosho
     \<noteq> Inr \<lparr>score = 0, sentiment = NEUTRAL, word_count = 0\<rparr>"
  by (simp add: broken_lexicon analyze_def engine_broken normalize_vader_score_def bind_err_def
      py_sqrt_def py_div_def)

text \<open>
  C7, amended.  When the lexicon file is missing, cannot be opened, or fails before a line
  is read, the exceptions of the load are caught and the analyzer is built with an empty
  lexicon; then, as with every empty lexicon, \<open>analyze\<close> returns for every text the word
  count 0, the score \<open>0.0\<close> and the neutral label.
\<close>

theorem missing_lexicon_neutral:
  "(file = Missing \<or> file = OpenFails \<or> file = Readable [] ended
      \<longrightarrow> lexicon (SentimentAnalyzer_init pyfloat file) = Map.empty
          \<and> analyze U lem (SentimentAnalyzer_init pyfloat file) text
              = Inr \<lparr>score = 0, sentiment = NEUTRAL, word_count = 0\<rparr>)
   \<and> (lexicon an = Map.empty
      \<longrightarrow> analyze U lem an text = Inr \<lparr>score = 0, sentiment = NEUTRAL, word_count = 0\<rparr>)"
proof -
  have empty: "analyze U lem a text = Inr \<lparr>score = 0, sentiment = NEUTRAL, word_count = 0\<rparr>"
    if "lexicon a = Map.empty" for a
    using that by (intro analyze_no_match) simp
  have load: "lexicon (SentimentAnalyzer_init pyfloat file) = Map.empty"
    if "file = Missing \<or> file = OpenFails \<or> file = Readable [] ended"
    using that
    by (auto simp: SentimentAnalyzer_init_def load_tonal_lexicon_def load_attempt_def
        split: bool.splits)
  show ?thesis
    using empty load by blast
qed

theorem missing_lexicon_neutral_witness:
  "lexicon (SentimentAnalyzer_init digit_float Missing) = Map.empty
   \<and> analyze basic_unicode keep_value (SentimentAnalyzer_init digit_float Missing) word_horosho
       = Inr \<lparr>score = 0, sentiment = NEUTRAL, word_count = 0\<rparr>"
  using missing_lexicon_neutral [of Missing _ digit_float basic_unicode keep_value
      word_horosho]
  by simp

section \<open>Token values have no space\<close>

lemma single_word_tables:
  "map fst single_word_modifiers =
     [[1074, 1088, 1086, 1076, 1077], [1090, 1080, 1087, 1072], [1087, 1086, 1095, 1090, 1080],
      [1089, 1083, 1077, 1075, 1082, 1072], [1085, 1077, 1084, 1085, 1086, 1075, 1086],
      [1086, 1090, 1095, 1072, 1089, 1090, 1080], [1095, 1072, 1089, 1090, 1080, 1095, 1085, 1086]]"
  "single_word_contrast =
     [[1085, 1086], [1086, 1076, 1085, 1072, 1082, 1086], [1074, 1087, 1088, 1086, 1095, 1077, 1084]]"
  by (simp_all add: single_word_modifiers_def single_word_contrast_def modifiers_def
      contrast_words_def)




















end
